theory Spec2Isabelle
  imports Complex_Main "HOL-Library.Word"
begin

section \<open>The NFSd collector of node_exporter (collector/nfsd_linux.go)\<close>

text \<open>
  The collector reads one snapshot of the kernel's NFS server statistics and sends one
  constant metric per statistic on the channel it is given. The development below embeds
  \<^verbatim>\<open>Update\<close> and its six helpers, together with the few functions of the Prometheus
  client library and of the procfs library that they call.
\<close>

subsection \<open>Go values\<close>

text \<open>A Go \<^verbatim>\<open>error\<close> is represented by the text that its \<^verbatim>\<open>Error()\<close> method returns.\<close>

datatype error = Error (message: string)

type_synonym uint64 = "64 word"

text \<open>
  A \<^verbatim>\<open>float64\<close> is represented by the number it holds. The only float64 values of this
  program are conversions of a uint64, which are whole numbers between 0 and 2^64.
\<close>

type_synonym float64 = real

fun bit_length :: "nat \<Rightarrow> nat" where
  "bit_length n = (if n = 0 then 0 else Suc (bit_length (n div 2)))"

declare bit_length.simps [simp del]

text \<open>
  The conversion \<^verbatim>\<open>float64(x)\<close> of a uint64: a float64 has a significand of 53 bits, so
  a number below 2^53 is kept as it is, and a larger one is rounded to the nearest
  multiple of 2^e, where e is the number of bits beyond 53, a tie going to the even
  significand.
\<close>

definition round_to_float64 :: "nat \<Rightarrow> nat" where
  "round_to_float64 n =
     (if n < 2 ^ 53 then n
      else let e = bit_length n - 53;
               q = n div 2 ^ e;
               r = n mod 2 ^ e;
               h = 2 ^ (e - 1)
           in (if h < r then q + 1
               else if r = h \<and> q mod 2 = 1 then q + 1
               else q) * 2 ^ e)"

definition float64 :: "uint64 \<Rightarrow> float64" where
  "float64 x = real (round_to_float64 (unat x))"

subsection \<open>The statistics snapshot (package nfs of the procfs library)\<close>

text \<open>
  Modelled from the spec: the structs \<^verbatim>\<open>nfs.ReplyCache\<close>, \<^verbatim>\<open>nfs.FileHandles\<close>,
  \<^verbatim>\<open>nfs.InputOutput\<close>, \<^verbatim>\<open>nfs.Threads\<close>, \<^verbatim>\<open>nfs.ReadAheadCache\<close>, \<^verbatim>\<open>nfs.Network\<close>
  and \<^verbatim>\<open>nfs.ServerRPCStats\<close> of the procfs library, whose declarations are not
  among the sources. The spec lists the fields that the collector reads, all of them
  non-negative integers (uint64 in the library), and says of \<^verbatim>\<open>FileHandles\<close> that it has
  other fields that are never exposed; those, and the unread fields of \<^verbatim>\<open>Threads\<close>,
  \<^verbatim>\<open>ReadAheadCache\<close> and \<^verbatim>\<open>Network\<close>, are given with the names the library uses. The
  members of \<^verbatim>\<open>ServerRPCStats\<close> after \<^verbatim>\<open>Network\<close> (the per-procedure tables) are never
  passed to any function of the collector; they are the extension part of the record.
\<close>

record ReplyCache =
  Hits :: uint64
  Misses :: uint64
  NoCache :: uint64

record FileHandles =
  Stale :: uint64
  TotalLookups :: uint64
  AnonLookups :: uint64
  DirNoCache :: uint64
  NoDirNoCache :: uint64

record InputOutput =
  Read :: uint64
  Write :: uint64

record Threads =
  Threads :: uint64
  FullCnt :: uint64

record ReadAheadCache =
  CacheSize :: uint64
  CacheHistogram :: "uint64 list"
  NotFound :: uint64

record Network =
  NetCount :: uint64
  UDPCount :: uint64
  TCPCount :: uint64
  TCPConnect :: uint64

record ServerRPCStats =
  ReplyCache :: ReplyCache
  FileHandles :: FileHandles
  InputOutput :: InputOutput
  Threads :: Threads
  ReadAheadCache :: ReadAheadCache
  Network :: Network

text \<open>\<^verbatim>\<open>procfs.FS\<close> is the mount point of the proc filesystem.\<close>

type_synonym FS = string

record nfsdCollector =
  fs :: FS

subsection \<open>Descriptors and metrics (Prometheus client library)\<close>

datatype ValueType = CounterValue | GaugeValue | UntypedValue

type_synonym Labels = "(string \<times> string) list"

record Desc =
  fqName :: string
  help' :: string
  variableLabels :: "string list"
  constLabels :: Labels

text \<open>
  \<^verbatim>\<open>NewDesc\<close> returns a pointer to a descriptor it allocates, and a constant metric keeps
  the pointer it was built with. A pointer is the position of the descriptor in the list
  of all descriptors allocated so far.
\<close>

type_synonym ptr = nat

record Metric =
  desc :: ptr
  valType :: ValueType
  val :: float64
  labelValues :: "string list"

text \<open>
  The state a call works on: the descriptors allocated so far and the metrics sent on the
  channel \<^verbatim>\<open>ch\<close> so far, the oldest first.
\<close>

record state =
  descs :: "Desc list"
  chan :: "Metric list"

text \<open>
  A computation returns a value or panics (\<open>Inl\<close>), and leaves a state behind in both
  cases: what was sent before a panic stays sent.
\<close>

type_synonym 'a go = "state \<Rightarrow> (error + 'a) \<times> state"

definition return_go :: "'a \<Rightarrow> 'a go" where
  "return_go x s = (Inr x, s)"

definition bind_go :: "'a go \<Rightarrow> ('a \<Rightarrow> 'b go) \<Rightarrow> 'b go" where
  "bind_go m f s = (case m s of (Inl e, s') \<Rightarrow> (Inl e, s') | (Inr x, s') \<Rightarrow> f x s')"

text \<open>Two statements in sequence.\<close>

definition then_go :: "unit go \<Rightarrow> 'a go \<Rightarrow> 'a go" where
  "then_go m k = bind_go m (\<lambda>_. k)"

definition panic :: "error \<Rightarrow> 'a go" where
  "panic e s = (Inl e, s)"

text \<open>The send statement \<^verbatim>\<open>ch <- e\<close>: the operand is evaluated, then sent.\<close>

definition send :: "Metric go \<Rightarrow> unit go" where
  "send e = bind_go e (\<lambda>m s. (Inr (), s\<lparr>chan := chan s @ [m]\<rparr>))"

definition deref :: "state \<Rightarrow> ptr \<Rightarrow> Desc option" where
  "deref s p = (if p < length (descs s) then Some (descs s ! p) else None)"

text \<open>
  Modelled from the spec: \<^verbatim>\<open>prometheus.BuildFQName\<close> of the Prometheus client library,
  which is not among the sources. The spec has a name built by joining the namespace, the
  subsystem and the suffix with an underscore. The library leaves out an empty namespace
  or subsystem together with its underscore, and gives the empty string for an empty name.
\<close>

definition BuildFQName :: "string \<Rightarrow> string \<Rightarrow> string \<Rightarrow> string" where
  "BuildFQName namespace subsystem name =
     (if name = [] then []
      else if namespace \<noteq> [] \<and> subsystem \<noteq> [] then namespace @ ''_'' @ subsystem @ ''_'' @ name
      else if namespace \<noteq> [] then namespace @ ''_'' @ name
      else if subsystem \<noteq> [] then subsystem @ ''_'' @ name
      else name)"

text \<open>
  Modelled from the spec: \<^verbatim>\<open>prometheus.NewDesc\<close> of the Prometheus client library, which
  is not among the sources. By the spec a descriptor is the name, the help text and the
  label schema, constructed fresh per call: the function allocates a descriptor holding
  its four arguments (\<^verbatim>\<open>nil\<close> is the empty list) and returns the pointer to it.
\<close>

definition NewDesc :: "string \<Rightarrow> string \<Rightarrow> string list \<Rightarrow> Labels \<Rightarrow> ptr go" where
  "NewDesc fq h vl cl s =
     (Inr (length (descs s)),
      s\<lparr>descs := descs s @ [\<lparr>fqName = fq, help' = h, variableLabels = vl, constLabels = cl\<rparr>]\<rparr>)"

definition errInconsistentCardinality :: error where
  "errInconsistentCardinality = Error ''inconsistent label cardinality''"

definition errNilDesc :: error where
  "errNilDesc = Error ''invalid memory address or nil pointer dereference''"

text \<open>
  Modelled from the spec: \<^verbatim>\<open>prometheus.NewConstMetric\<close> of the Prometheus client library,
  which is not among the sources. It fails when the number of label values differs from
  the number of variable labels that the descriptor declares, and otherwise gives the
  metric made of its arguments. Reading a descriptor through a pointer that was never
  allocated is the nil dereference of Go.
\<close>

definition NewConstMetric ::
  "state \<Rightarrow> ptr \<Rightarrow> ValueType \<Rightarrow> float64 \<Rightarrow> string list \<Rightarrow> error + Metric" where
  "NewConstMetric s d vt v lvs =
     (case deref s d of
        None \<Rightarrow> Inl errNilDesc
      | Some dd \<Rightarrow>
          if length (variableLabels dd) \<noteq> length lvs then Inl errInconsistentCardinality
          else Inr \<lparr>desc = d, valType = vt, val = v, labelValues = lvs\<rparr>)"

text \<open>
  Modelled from the spec: \<^verbatim>\<open>prometheus.MustNewConstMetric\<close> of the Prometheus
  client library, which is not among the sources. It panics with the error of
  \<^verbatim>\<open>NewConstMetric\<close>. Its first argument is evaluated first; it is a computation here
  because the collector passes a call of \<^verbatim>\<open>NewDesc\<close> in that place.
\<close>

definition MustNewConstMetric ::
  "ptr go \<Rightarrow> ValueType \<Rightarrow> float64 \<Rightarrow> string list \<Rightarrow> Metric go" where
  "MustNewConstMetric dm vt v lvs =
     bind_go dm (\<lambda>d s. case NewConstMetric s d vt v lvs of
                         Inl e \<Rightarrow> panic e s
                       | Inr m \<Rightarrow> return_go m s)"

text \<open>
  \<^verbatim>\<open>fmt.Errorf\<close> with a format made of a fixed text followed by one \<^verbatim>\<open>%v\<close> whose
  argument is an error: the text, then the message of the error.
\<close>

definition Errorf_v :: "string \<Rightarrow> error \<Rightarrow> error" where
  "Errorf_v fmt err = Error (fmt @ message err)"

subsection \<open>The collector\<close>

definition nfsdSubsystem :: string where
  "nfsdSubsystem = ''nfsd''"

text \<open>
  The package constant \<^verbatim>\<open>namespace\<close> is declared in another file of the package, which
  is not among the sources; every function below takes it as its first argument.
\<close>

definition updateNFSdReplyCacheStats ::
  "string \<Rightarrow> nfsdCollector \<Rightarrow> ReplyCache \<Rightarrow> unit go" where
  "updateNFSdReplyCacheStats namespace c s =
     then_go
       (send (MustNewConstMetric
          (NewDesc
             (BuildFQName namespace nfsdSubsystem ''reply_cache_hits_total'')
             ''NFSd Reply Cache client did not receive a reply and decided to re-transmit its request and the reply was cached. (bad).''
             []
             [])
          CounterValue
          (float64 (Hits s)) []))
    (then_go
       (send (MustNewConstMetric
          (NewDesc
             (BuildFQName namespace nfsdSubsystem ''reply_cache_misses_total'')
             ''NFSd Reply Cache an operation that requires caching (idempotent).''
             []
             [])
          CounterValue
          (float64 (Misses s)) []))
       (send (MustNewConstMetric
          (NewDesc
             (BuildFQName namespace nfsdSubsystem ''reply_cache_nocache_total'')
             (''NFSd Reply Cache non-idempotent operations (rename/delete/''
                @ [CHR 0xE2, CHR 0x80, CHR 0xA6] @ '').'')
             []
             [])
          CounterValue
          (float64 (NoCache s)) [])))"

definition updateNFSdFileHandlesStats ::
  "string \<Rightarrow> nfsdCollector \<Rightarrow> FileHandles \<Rightarrow> unit go" where
  "updateNFSdFileHandlesStats namespace c s =
     send (MustNewConstMetric
       (NewDesc
          (BuildFQName namespace nfsdSubsystem ''file_handles_stale_total'')
          ''NFSd stale file handles''
          []
          [])
       CounterValue
       (float64 (Stale s)) [])"

definition updateNFSdInputOutputStats ::
  "string \<Rightarrow> nfsdCollector \<Rightarrow> InputOutput \<Rightarrow> unit go" where
  "updateNFSdInputOutputStats namespace c s =
     then_go
       (send (MustNewConstMetric
          (NewDesc
             (BuildFQName namespace nfsdSubsystem ''disk_bytes_read_total'')
             ''NFSd bytes read''
             []
             [])
          CounterValue
          (float64 (Read s)) []))
       (send (MustNewConstMetric
          (NewDesc
             (BuildFQName namespace nfsdSubsystem ''disk_bytes_written_total'')
             ''NFSd bytes written''
             []
             [])
          CounterValue
          (float64 (Write s)) []))"

definition updateNFSdThreadsStats ::
  "string \<Rightarrow> nfsdCollector \<Rightarrow> Threads \<Rightarrow> unit go" where
  "updateNFSdThreadsStats namespace c s =
     send (MustNewConstMetric
       (NewDesc
          (BuildFQName namespace nfsdSubsystem ''server_threads'')
          ''NFSd how many kernel threads are running''
          []
          [])
       GaugeValue
       (float64 (Threads.Threads s)) [])"

definition updateNFSdReadAheadCacheStats ::
  "string \<Rightarrow> nfsdCollector \<Rightarrow> ReadAheadCache \<Rightarrow> unit go" where
  "updateNFSdReadAheadCacheStats namespace c s =
     then_go
       (send (MustNewConstMetric
          (NewDesc
             (BuildFQName namespace nfsdSubsystem ''read_ahead_cache_size_blocks'')
             ''NFSd how large the read ahead cache in blocks''
             []
             [])
          GaugeValue
          (float64 (CacheSize s)) []))
       (send (MustNewConstMetric
          (NewDesc
             (BuildFQName namespace nfsdSubsystem ''read_ahead_cache_not_found_total'')
             ''NFSd how large the read ahead cache in blocks''
             []
             [])
          CounterValue
          (float64 (NotFound s)) []))"

definition updateNFSdNetworkStats ::
  "string \<Rightarrow> nfsdCollector \<Rightarrow> Network \<Rightarrow> unit go" where
  "updateNFSdNetworkStats namespace c s =
     bind_go
       (NewDesc
          (BuildFQName namespace nfsdSubsystem ''packets_total'')
          ''NFSd how many network packets have been sent/recieved''
          [''proto'']
          [])
       (\<lambda>packetDesc.
          then_go
            (send (MustNewConstMetric
               (return_go packetDesc)
               CounterValue
               (float64 (UDPCount s)) [''udp'']))
         (then_go
            (send (MustNewConstMetric
               (return_go packetDesc)
               CounterValue
               (float64 (TCPCount s)) [''tcp'']))
            (send (MustNewConstMetric
               (NewDesc
                  (BuildFQName namespace nfsdSubsystem ''connections_total'')
                  ''NFSd how many TCP connections have been made''
                  []
                  [])
               CounterValue
               (float64 (TCPConnect s)) []))))"

text \<open>
  \<^verbatim>\<open>Update\<close>. The method \<^verbatim>\<open>NFSdServerRPCStats\<close> of the procfs library reads and parses
  the statistics file; it is an argument here, a function from the handle to the error or
  the snapshot that the read gives (the library gives a snapshot whenever it gives no
  error). The result is the returned error (\<open>None\<close> is \<^verbatim>\<open>nil\<close>).
\<close>

definition Update ::
  "string \<Rightarrow> (FS \<Rightarrow> error + 'z ServerRPCStats_scheme) \<Rightarrow> nfsdCollector \<Rightarrow> error option go" where
  "Update namespace NFSdServerRPCStats c =
     (case NFSdServerRPCStats (fs c) of
        Inl err \<Rightarrow> return_go (Some (Errorf_v ''failed to retrieve nfsd stats: '' err))
      | Inr stats \<Rightarrow>
          then_go (updateNFSdReplyCacheStats namespace c (ReplyCache stats))
         (then_go (updateNFSdFileHandlesStats namespace c (FileHandles stats))
         (then_go (updateNFSdInputOutputStats namespace c (InputOutput stats))
         (then_go (updateNFSdThreadsStats namespace c (ServerRPCStats.Threads stats))
         (then_go (updateNFSdReadAheadCacheStats namespace c (ReadAheadCache stats))
         (then_go (updateNFSdNetworkStats namespace c (Network stats))
                  (return_go None)))))))"

subsection \<open>What a cycle hands to the consumer\<close>

text \<open>
  A consumer of the channel sees, for each metric, the name and help text of its
  descriptor, its kind, its labels (the variable label names paired with the label values
  of the metric, after the constant labels) and its value.
\<close>

record MetricSample =
  sample_name :: string
  sample_kind :: ValueType
  sample_help :: string
  sample_labels :: Labels
  sample_value :: float64

definition sample_of :: "state \<Rightarrow> Metric \<Rightarrow> MetricSample option" where
  "sample_of s m =
     (case deref s (desc m) of
        None \<Rightarrow> None
      | Some d \<Rightarrow> Some \<lparr>sample_name = fqName d, sample_kind = valType m, sample_help = help' d,
                        sample_labels = constLabels d @ zip (variableLabels d) (labelValues m),
                        sample_value = val m\<rparr>)"

text \<open>
  The metrics that one call of \<^verbatim>\<open>Update\<close> adds to the channel, and the samples they
  stand for in the state the call leaves behind.
\<close>

definition emitted ::
  "string \<Rightarrow> (FS \<Rightarrow> error + 'z ServerRPCStats_scheme) \<Rightarrow> nfsdCollector \<Rightarrow> state \<Rightarrow> Metric list" where
  "emitted ns acq c s = drop (length (chan s)) (chan (snd (Update ns acq c s)))"

definition emitted_samples ::
  "string \<Rightarrow> (FS \<Rightarrow> error + 'z ServerRPCStats_scheme) \<Rightarrow> nfsdCollector \<Rightarrow> state
     \<Rightarrow> MetricSample option list" where
  "emitted_samples ns acq c s = map (sample_of (snd (Update ns acq c s))) (emitted ns acq c s)"

definition nfsd_descs :: "string \<Rightarrow> Desc list" where
  "nfsd_descs ns =
     [\<lparr>fqName = BuildFQName ns nfsdSubsystem ''reply_cache_hits_total'',
        help' = ''NFSd Reply Cache client did not receive a reply and decided to re-transmit its request and the reply was cached. (bad).'',
        variableLabels = [], constLabels = []\<rparr>,
      \<lparr>fqName = BuildFQName ns nfsdSubsystem ''reply_cache_misses_total'',
        help' = ''NFSd Reply Cache an operation that requires caching (idempotent).'',
        variableLabels = [], constLabels = []\<rparr>,
      \<lparr>fqName = BuildFQName ns nfsdSubsystem ''reply_cache_nocache_total'',
        help' = ''NFSd Reply Cache non-idempotent operations (rename/delete/''
                  @ [CHR 0xE2, CHR 0x80, CHR 0xA6] @ '').'',
        variableLabels = [], constLabels = []\<rparr>,
      \<lparr>fqName = BuildFQName ns nfsdSubsystem ''file_handles_stale_total'',
        help' = ''NFSd stale file handles'',
        variableLabels = [], constLabels = []\<rparr>,
      \<lparr>fqName = BuildFQName ns nfsdSubsystem ''disk_bytes_read_total'',
        help' = ''NFSd bytes read'',
        variableLabels = [], constLabels = []\<rparr>,
      \<lparr>fqName = BuildFQName ns nfsdSubsystem ''disk_bytes_written_total'',
        help' = ''NFSd bytes written'',
        variableLabels = [], constLabels = []\<rparr>,
      \<lparr>fqName = BuildFQName ns nfsdSubsystem ''server_threads'',
        help' = ''NFSd how many kernel threads are running'',
        variableLabels = [], constLabels = []\<rparr>,
      \<lparr>fqName = BuildFQName ns nfsdSubsystem ''read_ahead_cache_size_blocks'',
        help' = ''NFSd how large the read ahead cache in blocks'',
        variableLabels = [], constLabels = []\<rparr>,
      \<lparr>fqName = BuildFQName ns nfsdSubsystem ''read_ahead_cache_not_found_total'',
        help' = ''NFSd how large the read ahead cache in blocks'',
        variableLabels = [], constLabels = []\<rparr>,
      \<lparr>fqName = BuildFQName ns nfsdSubsystem ''packets_total'',
        help' = ''NFSd how many network packets have been sent/recieved'',
        variableLabels = [''proto''], constLabels = []\<rparr>,
      \<lparr>fqName = BuildFQName ns nfsdSubsystem ''connections_total'',
        help' = ''NFSd how many TCP connections have been made'',
        variableLabels = [], constLabels = []\<rparr>]"

definition nfsd_metrics :: "ptr \<Rightarrow> 'z ServerRPCStats_scheme \<Rightarrow> Metric list" where
  "nfsd_metrics p st =
     [\<lparr>desc = p, valType = CounterValue, val = float64 (Hits (ReplyCache st)), labelValues = []\<rparr>,
      \<lparr>desc = p + 1, valType = CounterValue, val = float64 (Misses (ReplyCache st)), labelValues = []\<rparr>,
      \<lparr>desc = p + 2, valType = CounterValue, val = float64 (NoCache (ReplyCache st)), labelValues = []\<rparr>,
      \<lparr>desc = p + 3, valType = CounterValue, val = float64 (Stale (FileHandles st)), labelValues = []\<rparr>,
      \<lparr>desc = p + 4, valType = CounterValue, val = float64 (Read (InputOutput st)), labelValues = []\<rparr>,
      \<lparr>desc = p + 5, valType = CounterValue, val = float64 (Write (InputOutput st)), labelValues = []\<rparr>,
      \<lparr>desc = p + 6, valType = GaugeValue, val = float64 (Threads.Threads (ServerRPCStats.Threads st)), labelValues = []\<rparr>,
      \<lparr>desc = p + 7, valType = GaugeValue, val = float64 (CacheSize (ReadAheadCache st)), labelValues = []\<rparr>,
      \<lparr>desc = p + 8, valType = CounterValue, val = float64 (NotFound (ReadAheadCache st)), labelValues = []\<rparr>,
      \<lparr>desc = p + 9, valType = CounterValue, val = float64 (UDPCount (Network st)), labelValues = [''udp'']\<rparr>,
      \<lparr>desc = p + 9, valType = CounterValue, val = float64 (TCPCount (Network st)), labelValues = [''tcp'']\<rparr>,
      \<lparr>desc = p + 10, valType = CounterValue, val = float64 (TCPConnect (Network st)), labelValues = []\<rparr>]"

text \<open>The ten descriptors, the twelve metrics and the twelve samples of one cycle, written out.\<close>

definition nfsd_samples :: "string \<Rightarrow> 'z ServerRPCStats_scheme \<Rightarrow> MetricSample list" where
  "nfsd_samples ns st =
     [\<lparr>sample_name = BuildFQName ns nfsdSubsystem ''reply_cache_hits_total'',
        sample_kind = CounterValue,
        sample_help = ''NFSd Reply Cache client did not receive a reply and decided to re-transmit its request and the reply was cached. (bad).'',
        sample_labels = [],
        sample_value = float64 (Hits (ReplyCache st))\<rparr>,
      \<lparr>sample_name = BuildFQName ns nfsdSubsystem ''reply_cache_misses_total'',
        sample_kind = CounterValue,
        sample_help = ''NFSd Reply Cache an operation that requires caching (idempotent).'',
        sample_labels = [],
        sample_value = float64 (Misses (ReplyCache st))\<rparr>,
      \<lparr>sample_name = BuildFQName ns nfsdSubsystem ''reply_cache_nocache_total'',
        sample_kind = CounterValue,
        sample_help = ''NFSd Reply Cache non-idempotent operations (rename/delete/''
                        @ [CHR 0xE2, CHR 0x80, CHR 0xA6] @ '').'',
        sample_labels = [],
        sample_value = float64 (NoCache (ReplyCache st))\<rparr>,
      \<lparr>sample_name = BuildFQName ns nfsdSubsystem ''file_handles_stale_total'',
        sample_kind = CounterValue,
        sample_help = ''NFSd stale file handles'',
        sample_labels = [],
        sample_value = float64 (Stale (FileHandles st))\<rparr>,
      \<lparr>sample_name = BuildFQName ns nfsdSubsystem ''disk_bytes_read_total'',
        sample_kind = CounterValue,
        sample_help = ''NFSd bytes read'',
        sample_labels = [],
        sample_value = float64 (Read (InputOutput st))\<rparr>,
      \<lparr>sample_name = BuildFQName ns nfsdSubsystem ''disk_bytes_written_total'',
        sample_kind = CounterValue,
        sample_help = ''NFSd bytes written'',
        sample_labels = [],
        sample_value = float64 (Write (InputOutput st))\<rparr>,
      \<lparr>sample_name = BuildFQName ns nfsdSubsystem ''server_threads'',
        sample_kind = GaugeValue,
        sample_help = ''NFSd how many kernel threads are running'',
        sample_labels = [],
        sample_value = float64 (Threads.Threads (ServerRPCStats.Threads st))\<rparr>,
      \<lparr>sample_name = BuildFQName ns nfsdSubsystem ''read_ahead_cache_size_blocks'',
        sample_kind = GaugeValue,
        sample_help = ''NFSd how large the read ahead cache in blocks'',
        sample_labels = [],
        sample_value = float64 (CacheSize (ReadAheadCache st))\<rparr>,
      \<lparr>sample_name = BuildFQName ns nfsdSubsystem ''read_ahead_cache_not_found_total'',
        sample_kind = CounterValue,
        sample_help = ''NFSd how large the read ahead cache in blocks'',
        sample_labels = [],
        sample_value = float64 (NotFound (ReadAheadCache st))\<rparr>,
      \<lparr>sample_name = BuildFQName ns nfsdSubsystem ''packets_total'',
        sample_kind = CounterValue,
        sample_help = ''NFSd how many network packets have been sent/recieved'',
        sample_labels = [(''proto'', ''udp'')],
        sample_value = float64 (UDPCount (Network st))\<rparr>,
      \<lparr>sample_name = BuildFQName ns nfsdSubsystem ''packets_total'',
        sample_kind = CounterValue,
        sample_help = ''NFSd how many network packets have been sent/recieved'',
        sample_labels = [(''proto'', ''tcp'')],
        sample_value = float64 (TCPCount (Network st))\<rparr>,
      \<lparr>sample_name = BuildFQName ns nfsdSubsystem ''connections_total'',
        sample_kind = CounterValue,
        sample_help = ''NFSd how many TCP connections have been made'',
        sample_labels = [],
        sample_value = float64 (TCPConnect (Network st))\<rparr>]"

subsection \<open>Notions used to state the properties\<close>

text \<open>The shape of a sample: its name, its kind and the names of its labels.\<close>

definition sample_shape :: "MetricSample \<Rightarrow> string \<times> ValueType \<times> string list" where
  "sample_shape x = (sample_name x, sample_kind x, map fst (sample_labels x))"

text \<open>The name of a sample together with its value.\<close>

definition sample_name_value :: "MetricSample \<Rightarrow> string \<times> float64" where
  "sample_name_value x = (sample_name x, sample_value x)"

text \<open>The name of a sample together with its labels, and together with its help text.\<close>

definition sample_name_labels :: "MetricSample \<Rightarrow> string \<times> Labels" where
  "sample_name_labels x = (sample_name x, sample_labels x)"

definition sample_name_help :: "MetricSample \<Rightarrow> string \<times> string" where
  "sample_name_help x = (sample_name x, sample_help x)"

text \<open>Whether a delivered sample has the given name, and whether it carries a label.\<close>

definition has_name :: "string \<Rightarrow> MetricSample option \<Rightarrow> bool" where
  "has_name n x = (case x of None \<Rightarrow> False | Some y \<Rightarrow> sample_name y = n)"

definition has_labels :: "MetricSample option \<Rightarrow> bool" where
  "has_labels x = (case x of None \<Rightarrow> False | Some y \<Rightarrow> sample_labels y \<noteq> [])"

text \<open>
  The snapshot fields that the twelve samples of a cycle are bound to, in the order in
  which the samples are sent.
\<close>

definition bound_fields :: "'z ServerRPCStats_scheme \<Rightarrow> uint64 list" where
  "bound_fields st =
     [Hits (ReplyCache st), Misses (ReplyCache st), NoCache (ReplyCache st),
      Stale (FileHandles st),
      Read (InputOutput st), Write (InputOutput st),
      Threads.Threads (ServerRPCStats.Threads st),
      CacheSize (ReadAheadCache st), NotFound (ReadAheadCache st),
      UDPCount (Network st), TCPCount (Network st), TCPConnect (Network st)]"

text \<open>
  Concrete inputs: the snapshot of the end-to-end example of the spec, a second snapshot
  with other values in every field, an acquisition that fails, a collector on
  \<^verbatim>\<open>/proc\<close>, and the state in which nothing was allocated or sent yet.
\<close>

definition example_stats :: ServerRPCStats where
  "example_stats =
     \<lparr>ReplyCache = \<lparr>Hits = 10, Misses = 2, NoCache = 1\<rparr>,
      FileHandles = \<lparr>Stale = 0, TotalLookups = 0, AnonLookups = 0, DirNoCache = 0, NoDirNoCache = 0\<rparr>,
      InputOutput = \<lparr>Read = 1000, Write = 500\<rparr>,
      Threads = \<lparr>Threads.Threads = 8, FullCnt = 0\<rparr>,
      ReadAheadCache = \<lparr>CacheSize = 32, CacheHistogram = [], NotFound = 3\<rparr>,
      Network = \<lparr>NetCount = 150, UDPCount = 100, TCPCount = 50, TCPConnect = 7\<rparr>\<rparr>"

definition example_acq :: "FS \<Rightarrow> error + ServerRPCStats" where
  "example_acq p = Inr example_stats"

definition failing_acq :: "FS \<Rightarrow> error + ServerRPCStats" where
  "failing_acq p = Inl (Error (''open '' @ p @ ''/net/rpc/nfsd: no such file or directory''))"

definition example_collector :: nfsdCollector where
  "example_collector = \<lparr>fs = ''/proc''\<rparr>"

definition empty_state :: state where
  "empty_state = \<lparr>descs = [], chan = []\<rparr>"

definition stats_42 :: ServerRPCStats where
  "stats_42 =
     \<lparr>ReplyCache = \<lparr>Hits = 42, Misses = 5, NoCache = 9\<rparr>,
      FileHandles = \<lparr>Stale = 1, TotalLookups = 70, AnonLookups = 71, DirNoCache = 72, NoDirNoCache = 73\<rparr>,
      InputOutput = \<lparr>Read = 4096, Write = 8192\<rparr>,
      Threads = \<lparr>Threads.Threads = 16, FullCnt = 2\<rparr>,
      ReadAheadCache = \<lparr>CacheSize = 64, CacheHistogram = [1, 2, 3], NotFound = 11\<rparr>,
      Network = \<lparr>NetCount = 300, UDPCount = 120, TCPCount = 180, TCPConnect = 13\<rparr>\<rparr>"

definition acq_42 :: "FS \<Rightarrow> error + ServerRPCStats" where
  "acq_42 p = Inr stats_42"

text \<open>A state in which another collector has already allocated a descriptor and sent a metric.\<close>

definition busy_state :: state where
  "busy_state =
     \<lparr>descs = [\<lparr>fqName = ''node_load1'', help' = ''1m load average.'',
                variableLabels = [], constLabels = []\<rparr>],
      chan = [\<lparr>desc = 0, valType = GaugeValue, val = 3, labelValues = []\<rparr>]\<rparr>"

text \<open>
  Two snapshots that differ from the example in the number of threads only (4, then 6),
  and one that differs from it in the unexposed fields of \<^verbatim>\<open>FileHandles\<close> only.
\<close>

definition stats_threads_4 :: ServerRPCStats where
  "stats_threads_4 = example_stats\<lparr>Threads := \<lparr>Threads.Threads = 4, FullCnt = 0\<rparr>\<rparr>"

definition stats_threads_6 :: ServerRPCStats where
  "stats_threads_6 = example_stats\<lparr>Threads := \<lparr>Threads.Threads = 6, FullCnt = 0\<rparr>\<rparr>"

definition acq_threads_4 :: "FS \<Rightarrow> error + ServerRPCStats" where
  "acq_threads_4 p = Inr stats_threads_4"

definition acq_threads_6 :: "FS \<Rightarrow> error + ServerRPCStats" where
  "acq_threads_6 p = Inr stats_threads_6"

definition stats_other_file_handles :: ServerRPCStats where
  "stats_other_file_handles =
     example_stats\<lparr>FileHandles :=
       \<lparr>Stale = 0, TotalLookups = 99, AnonLookups = 98, DirNoCache = 97, NoDirNoCache = 96\<rparr>\<rparr>"

definition acq_other_file_handles :: "FS \<Rightarrow> error + ServerRPCStats" where
  "acq_other_file_handles p = Inr stats_other_file_handles"

text \<open>
  Whether a metric has as many label values as its descriptor declares variable labels:
  the condition under which \<^verbatim>\<open>NewConstMetric\<close> does not fail.
\<close>

definition label_count_matches :: "state \<Rightarrow> Metric \<Rightarrow> bool" where
  "label_count_matches s m =
     (case deref s (desc m) of
        None \<Rightarrow> False
      | Some d \<Rightarrow> length (labelValues m) = length (variableLabels d))"

section \<open>Running the collector\<close>

lemma send_new:
  "length vl = length lvs \<Longrightarrow>
   send (MustNewConstMetric (NewDesc fq h vl cl) vt v lvs) s =
     (Inr (), s\<lparr>descs := descs s @ [\<lparr>fqName = fq, help' = h, variableLabels = vl, constLabels = cl\<rparr>],
               chan := chan s @ [\<lparr>desc = length (descs s), valType = vt, val = v, labelValues = lvs\<rparr>]\<rparr>)"
  by (simp add: send_def MustNewConstMetric_def NewDesc_def bind_go_def NewConstMetric_def deref_def
      return_go_def panic_def)

lemma updateNFSdReplyCacheStats_run:
  "updateNFSdReplyCacheStats ns c r s =
     (Inr (),
      s\<lparr>descs := descs s @
           [\<lparr>fqName = BuildFQName ns nfsdSubsystem ''reply_cache_hits_total'',
              help' = ''NFSd Reply Cache client did not receive a reply and decided to re-transmit its request and the reply was cached. (bad).'',
              variableLabels = [], constLabels = []\<rparr>,
            \<lparr>fqName = BuildFQName ns nfsdSubsystem ''reply_cache_misses_total'',
              help' = ''NFSd Reply Cache an operation that requires caching (idempotent).'',
              variableLabels = [], constLabels = []\<rparr>,
            \<lparr>fqName = BuildFQName ns nfsdSubsystem ''reply_cache_nocache_total'',
              help' = ''NFSd Reply Cache non-idempotent operations (rename/delete/''
                        @ [CHR 0xE2, CHR 0x80, CHR 0xA6] @ '').'',
              variableLabels = [], constLabels = []\<rparr>],
        chan := chan s @
           [\<lparr>desc = length (descs s), valType = CounterValue, val = float64 (Hits r), labelValues = []\<rparr>,
            \<lparr>desc = length (descs s) + 1, valType = CounterValue, val = float64 (Misses r), labelValues = []\<rparr>,
            \<lparr>desc = length (descs s) + 2, valType = CounterValue, val = float64 (NoCache r), labelValues = []\<rparr>]\<rparr>)"
  by (simp add: updateNFSdReplyCacheStats_def then_go_def bind_go_def send_new)

lemma updateNFSdFileHandlesStats_run:
  "updateNFSdFileHandlesStats ns c r s =
     (Inr (),
      s\<lparr>descs := descs s @
           [\<lparr>fqName = BuildFQName ns nfsdSubsystem ''file_handles_stale_total'',
              help' = ''NFSd stale file handles'',
              variableLabels = [], constLabels = []\<rparr>],
        chan := chan s @
           [\<lparr>desc = length (descs s), valType = CounterValue, val = float64 (Stale r), labelValues = []\<rparr>]\<rparr>)"
  by (simp add: updateNFSdFileHandlesStats_def send_new)

lemma updateNFSdInputOutputStats_run:
  "updateNFSdInputOutputStats ns c r s =
     (Inr (),
      s\<lparr>descs := descs s @
           [\<lparr>fqName = BuildFQName ns nfsdSubsystem ''disk_bytes_read_total'',
              help' = ''NFSd bytes read'',
              variableLabels = [], constLabels = []\<rparr>,
            \<lparr>fqName = BuildFQName ns nfsdSubsystem ''disk_bytes_written_total'',
              help' = ''NFSd bytes written'',
              variableLabels = [], constLabels = []\<rparr>],
        chan := chan s @
           [\<lparr>desc = length (descs s), valType = CounterValue, val = float64 (Read r), labelValues = []\<rparr>,
            \<lparr>desc = length (descs s) + 1, valType = CounterValue, val = float64 (Write r), labelValues = []\<rparr>]\<rparr>)"
  by (simp add: updateNFSdInputOutputStats_def then_go_def bind_go_def send_new)

lemma updateNFSdThreadsStats_run:
  "updateNFSdThreadsStats ns c r s =
     (Inr (),
      s\<lparr>descs := descs s @
           [\<lparr>fqName = BuildFQName ns nfsdSubsystem ''server_threads'',
              help' = ''NFSd how many kernel threads are running'',
              variableLabels = [], constLabels = []\<rparr>],
        chan := chan s @
           [\<lparr>desc = length (descs s), valType = GaugeValue, val = float64 (Threads.Threads r), labelValues = []\<rparr>]\<rparr>)"
  by (simp add: updateNFSdThreadsStats_def send_new)

lemma updateNFSdReadAheadCacheStats_run:
  "updateNFSdReadAheadCacheStats ns c r s =
     (Inr (),
      s\<lparr>descs := descs s @
           [\<lparr>fqName = BuildFQName ns nfsdSubsystem ''read_ahead_cache_size_blocks'',
              help' = ''NFSd how large the read ahead cache in blocks'',
              variableLabels = [], constLabels = []\<rparr>,
            \<lparr>fqName = BuildFQName ns nfsdSubsystem ''read_ahead_cache_not_found_total'',
              help' = ''NFSd how large the read ahead cache in blocks'',
              variableLabels = [], constLabels = []\<rparr>],
        chan := chan s @
           [\<lparr>desc = length (descs s), valType = GaugeValue, val = float64 (CacheSize r), labelValues = []\<rparr>,
            \<lparr>desc = length (descs s) + 1, valType = CounterValue, val = float64 (NotFound r), labelValues = []\<rparr>]\<rparr>)"
  by (simp add: updateNFSdReadAheadCacheStats_def then_go_def bind_go_def send_new)

lemma send_old:
  "p < length (descs s) \<Longrightarrow> length (variableLabels (descs s ! p)) = length lvs \<Longrightarrow>
   send (MustNewConstMetric (return_go p) vt v lvs) s =
     (Inr (), s\<lparr>chan := chan s @ [\<lparr>desc = p, valType = vt, val = v, labelValues = lvs\<rparr>]\<rparr>)"
  by (simp add: send_def MustNewConstMetric_def bind_go_def NewConstMetric_def deref_def
      return_go_def panic_def)

lemma updateNFSdNetworkStats_run:
  "updateNFSdNetworkStats ns c r s =
     (Inr (),
      s\<lparr>descs := descs s @
           [\<lparr>fqName = BuildFQName ns nfsdSubsystem ''packets_total'',
              help' = ''NFSd how many network packets have been sent/recieved'',
              variableLabels = [''proto''], constLabels = []\<rparr>,
            \<lparr>fqName = BuildFQName ns nfsdSubsystem ''connections_total'',
              help' = ''NFSd how many TCP connections have been made'',
              variableLabels = [], constLabels = []\<rparr>],
        chan := chan s @
           [\<lparr>desc = length (descs s), valType = CounterValue, val = float64 (UDPCount r), labelValues = [''udp'']\<rparr>,
            \<lparr>desc = length (descs s), valType = CounterValue, val = float64 (TCPCount r), labelValues = [''tcp'']\<rparr>,
            \<lparr>desc = length (descs s) + 1, valType = CounterValue, val = float64 (TCPConnect r), labelValues = []\<rparr>]\<rparr>)"
  by (simp add: updateNFSdNetworkStats_def then_go_def bind_go_def send_new send_old NewDesc_def)

lemma Update_fail:
  "acq (fs c) = Inl e \<Longrightarrow>
   Update ns acq c s = (Inr (Some (Errorf_v ''failed to retrieve nfsd stats: '' e)), s)"
  by (simp add: Update_def return_go_def)

lemma Update_ok:
  "acq (fs c) = Inr st \<Longrightarrow>
   Update ns acq c s =
     (Inr None, s\<lparr>descs := descs s @ nfsd_descs ns,
                  chan := chan s @ nfsd_metrics (length (descs s)) st\<rparr>)"
  by (simp add: Update_def then_go_def bind_go_def return_go_def nfsd_descs_def nfsd_metrics_def
      updateNFSdReplyCacheStats_run updateNFSdFileHandlesStats_run updateNFSdInputOutputStats_run
      updateNFSdThreadsStats_run updateNFSdReadAheadCacheStats_run updateNFSdNetworkStats_run)

lemma emitted_ok:
  "acq (fs c) = Inr st \<Longrightarrow> emitted ns acq c s = nfsd_metrics (length (descs s)) st"
  by (simp add: emitted_def Update_ok)

lemma emitted_fail:
  "acq (fs c) = Inl e \<Longrightarrow> emitted ns acq c s = []"
  by (simp add: emitted_def Update_fail)

lemma emitted_samples_ok:
  "acq (fs c) = Inr st \<Longrightarrow> emitted_samples ns acq c s = map Some (nfsd_samples ns st)"
  by (simp add: emitted_samples_def emitted_ok Update_ok nfsd_metrics_def nfsd_descs_def
      nfsd_samples_def sample_of_def deref_def nth_append)

lemma emitted_samples_fail:
  "acq (fs c) = Inl e \<Longrightarrow> emitted_samples ns acq c s = []"
  by (simp add: emitted_samples_def emitted_fail)

lemma BuildFQName_inject:
  "a \<noteq> [] \<Longrightarrow> b \<noteq> [] \<Longrightarrow> (BuildFQName ns sub a = BuildFQName ns sub b) = (a = b)"
  by (simp add: BuildFQName_def)

lemma float64_exact: "unat x < 2 ^ 53 \<Longrightarrow> float64 x = real (unat x)"
  by (simp add: float64_def round_to_float64_def)

text \<open>
  Above 2^53 the conversion rounds: 2^53 + 1 is a tie and goes to the even significand,
  2^53 + 3 goes up, and the largest uint64 becomes 2^64.
\<close>

lemma round_to_float64_examples:
  "round_to_float64 9007199254740992 = 9007199254740992"
  "round_to_float64 9007199254740993 = 9007199254740992"
  "round_to_float64 9007199254740994 = 9007199254740994"
  "round_to_float64 9007199254740995 = 9007199254740996"
  "round_to_float64 9223372036854776833 = 9223372036854777856"
  "round_to_float64 18446744073709551615 = 18446744073709551616"
  by (simp_all add: round_to_float64_def bit_length.simps Let_def)

lemma float64_rounds_above_2_53:
  "float64 9007199254740993 = 9007199254740992"
  "float64 18446744073709551615 = 18446744073709551616"
  by (simp_all add: float64_def round_to_float64_examples)

lemma Update_chan:
  "chan (snd (Update ns acq c s)) = chan s @ emitted ns acq c s"
  by (cases "acq (fs c)") (simp_all add: Update_fail Update_ok emitted_fail emitted_ok)

text \<open>The panic of \<^verbatim>\<open>MustNewConstMetric\<close> is a live branch: a wrong number of label values reaches it.\<close>

lemma MustNewConstMetric_panics:
  "length vl \<noteq> length lvs \<Longrightarrow>
   send (MustNewConstMetric (NewDesc fq h vl cl) vt v lvs) s =
     (Inl errInconsistentCardinality,
      s\<lparr>descs := descs s @ [\<lparr>fqName = fq, help' = h, variableLabels = vl, constLabels = cl\<rparr>]\<rparr>)"
  by (simp add: send_def MustNewConstMetric_def NewDesc_def bind_go_def NewConstMetric_def deref_def
      return_go_def panic_def)

section \<open>The properties\<close>

text \<open>
  C1, as stated, says that \<^verbatim>\<open>Update\<close> emits exactly 11 samples for every acquired
  snapshot. On the snapshot of the spec's end-to-end example the number of samples is
  not 11: the network group sends \<^verbatim>\<open>packets_total\<close> twice and
  \<^verbatim>\<open>connections_total\<close> once, which makes twelve sends in all.
\<close>

theorem Update_sample_count_counterexample:
  "length (emitted_samples ''node'' example_acq example_collector empty_state) \<noteq> 11"
  by (simp add: emitted_samples_ok [of example_acq example_collector example_stats]
      example_acq_def nfsd_samples_def)

text \<open>
  C1, amended: for every acquired snapshot \<^verbatim>\<open>Update\<close> appends exactly 12 metrics to the
  channel, and the sequence of (name, kind, label names) of the 12 samples is the fixed
  one below, whatever the numbers in the snapshot: the 11 metric names of the table of
  section 4.2 of the spec, with \<^verbatim>\<open>packets_total\<close> twice. Nothing that was on the channel
  before is changed.
\<close>

theorem Update_emits_twelve_fixed_shapes:
  assumes "acq (fs c) = Inr st"
  shows "length (emitted_samples ns acq c s) = 12
    \<and> map (map_option sample_shape) (emitted_samples ns acq c s) =
       [Some (BuildFQName ns nfsdSubsystem ''reply_cache_hits_total'', CounterValue, []),
        Some (BuildFQName ns nfsdSubsystem ''reply_cache_misses_total'', CounterValue, []),
        Some (BuildFQName ns nfsdSubsystem ''reply_cache_nocache_total'', CounterValue, []),
        Some (BuildFQName ns nfsdSubsystem ''file_handles_stale_total'', CounterValue, []),
        Some (BuildFQName ns nfsdSubsystem ''disk_bytes_read_total'', CounterValue, []),
        Some (BuildFQName ns nfsdSubsystem ''disk_bytes_written_total'', CounterValue, []),
        Some (BuildFQName ns nfsdSubsystem ''server_threads'', GaugeValue, []),
        Some (BuildFQName ns nfsdSubsystem ''read_ahead_cache_size_blocks'', GaugeValue, []),
        Some (BuildFQName ns nfsdSubsystem ''read_ahead_cache_not_found_total'', CounterValue, []),
        Some (BuildFQName ns nfsdSubsystem ''packets_total'', CounterValue, [''proto'']),
        Some (BuildFQName ns nfsdSubsystem ''packets_total'', CounterValue, [''proto'']),
        Some (BuildFQName ns nfsdSubsystem ''connections_total'', CounterValue, [])]
    \<and> length (remdups (map (map_option sample_name) (emitted_samples ns acq c s))) = 11
    \<and> chan (snd (Update ns acq c s)) = chan s @ emitted ns acq c s
    \<and> length (emitted ns acq c s) = 12"
proof -
  have samples: "emitted_samples ns acq c s = map Some (nfsd_samples ns st)"
    using assms by (rule emitted_samples_ok)
  have count: "length (emitted_samples ns acq c s) = 12"
    by (simp add: samples nfsd_samples_def)
  have shapes: "map (map_option sample_shape) (emitted_samples ns acq c s) =
       [Some (BuildFQName ns nfsdSubsystem ''reply_cache_hits_total'', CounterValue, []),
        Some (BuildFQName ns nfsdSubsystem ''reply_cache_misses_total'', CounterValue, []),
        Some (BuildFQName ns nfsdSubsystem ''reply_cache_nocache_total'', CounterValue, []),
        Some (BuildFQName ns nfsdSubsystem ''file_handles_stale_total'', CounterValue, []),
        Some (BuildFQName ns nfsdSubsystem ''disk_bytes_read_total'', CounterValue, []),
        Some (BuildFQName ns nfsdSubsystem ''disk_bytes_written_total'', CounterValue, []),
        Some (BuildFQName ns nfsdSubsystem ''server_threads'', GaugeValue, []),
        Some (BuildFQName ns nfsdSubsystem ''read_ahead_cache_size_blocks'', GaugeValue, []),
        Some (BuildFQName ns nfsdSubsystem ''read_ahead_cache_not_found_total'', CounterValue, []),
        Some (BuildFQName ns nfsdSubsystem ''packets_total'', CounterValue, [''proto'']),
        Some (BuildFQName ns nfsdSubsystem ''packets_total'', CounterValue, [''proto'']),
        Some (BuildFQName ns nfsdSubsystem ''connections_total'', CounterValue, [])]"
    by (simp add: samples nfsd_samples_def sample_shape_def)
  have names: "length (remdups (map (map_option sample_name) (emitted_samples ns acq c s))) = 11"
    by (simp add: samples nfsd_samples_def BuildFQName_inject)
  have metrics: "length (emitted ns acq c s) = 12"
    using assms by (simp add: emitted_ok nfsd_metrics_def)
  from count shapes names metrics Update_chan show ?thesis
    by blast
qed

theorem Update_emits_twelve_fixed_shapes_witness:
  "example_acq (fs example_collector) = Inr example_stats
   \<and> length (emitted_samples ''node'' example_acq example_collector empty_state) = 12
   \<and> map (map_option sample_shape)
        (emitted_samples ''node'' example_acq example_collector empty_state) =
       [Some (''node_nfsd_reply_cache_hits_total'', CounterValue, []),
        Some (''node_nfsd_reply_cache_misses_total'', CounterValue, []),
        Some (''node_nfsd_reply_cache_nocache_total'', CounterValue, []),
        Some (''node_nfsd_file_handles_stale_total'', CounterValue, []),
        Some (''node_nfsd_disk_bytes_read_total'', CounterValue, []),
        Some (''node_nfsd_disk_bytes_written_total'', CounterValue, []),
        Some (''node_nfsd_server_threads'', GaugeValue, []),
        Some (''node_nfsd_read_ahead_cache_size_blocks'', GaugeValue, []),
        Some (''node_nfsd_read_ahead_cache_not_found_total'', CounterValue, []),
        Some (''node_nfsd_packets_total'', CounterValue, [''proto'']),
        Some (''node_nfsd_packets_total'', CounterValue, [''proto'']),
        Some (''node_nfsd_connections_total'', CounterValue, [])]"
  using Update_emits_twelve_fixed_shapes
          [of example_acq example_collector example_stats "''node''" empty_state]
  by (simp add: example_acq_def BuildFQName_def nfsdSubsystem_def)

text \<open>
  C2: for every acquired snapshot, the value of each emitted sample is the snapshot field
  it is bound to, converted to float64 and not transformed otherwise: \<^verbatim>\<open>Hits\<close> for
  \<^verbatim>\<open>reply_cache_hits_total\<close>, \<^verbatim>\<open>Threads\<close> for \<^verbatim>\<open>server_threads\<close>, \<^verbatim>\<open>CacheSize\<close> for
  \<^verbatim>\<open>read_ahead_cache_size_blocks\<close>, and so on for every sample. The conversion itself is
  the identity on every field below 2^53, so that \<^verbatim>\<open>Hits = 42\<close> gives the value 42.
\<close>

theorem sample_values_are_converted_fields:
  assumes "acq (fs c) = Inr st"
  shows "map (map_option sample_name_value) (emitted_samples ns acq c s) =
       [Some (BuildFQName ns nfsdSubsystem ''reply_cache_hits_total'', float64 (Hits (ReplyCache st))),
        Some (BuildFQName ns nfsdSubsystem ''reply_cache_misses_total'', float64 (Misses (ReplyCache st))),
        Some (BuildFQName ns nfsdSubsystem ''reply_cache_nocache_total'', float64 (NoCache (ReplyCache st))),
        Some (BuildFQName ns nfsdSubsystem ''file_handles_stale_total'', float64 (Stale (FileHandles st))),
        Some (BuildFQName ns nfsdSubsystem ''disk_bytes_read_total'', float64 (Read (InputOutput st))),
        Some (BuildFQName ns nfsdSubsystem ''disk_bytes_written_total'', float64 (Write (InputOutput st))),
        Some (BuildFQName ns nfsdSubsystem ''server_threads'',
              float64 (Threads.Threads (ServerRPCStats.Threads st))),
        Some (BuildFQName ns nfsdSubsystem ''read_ahead_cache_size_blocks'',
              float64 (CacheSize (ReadAheadCache st))),
        Some (BuildFQName ns nfsdSubsystem ''read_ahead_cache_not_found_total'',
              float64 (NotFound (ReadAheadCache st))),
        Some (BuildFQName ns nfsdSubsystem ''packets_total'', float64 (UDPCount (Network st))),
        Some (BuildFQName ns nfsdSubsystem ''packets_total'', float64 (TCPCount (Network st))),
        Some (BuildFQName ns nfsdSubsystem ''connections_total'', float64 (TCPConnect (Network st)))]
    \<and> (unat x < 2 ^ 53 \<longrightarrow> float64 x = real (unat x))"
proof -
  have "emitted_samples ns acq c s = map Some (nfsd_samples ns st)"
    using assms by (rule emitted_samples_ok)
  then show ?thesis
    by (simp add: nfsd_samples_def sample_name_value_def float64_exact)
qed

theorem sample_values_are_converted_fields_witness:
  "acq_42 (fs example_collector) = Inr stats_42
   \<and> map (map_option sample_name_value)
        (emitted_samples ''node'' acq_42 example_collector empty_state) =
       [Some (''node_nfsd_reply_cache_hits_total'', 42),
        Some (''node_nfsd_reply_cache_misses_total'', 5),
        Some (''node_nfsd_reply_cache_nocache_total'', 9),
        Some (''node_nfsd_file_handles_stale_total'', 1),
        Some (''node_nfsd_disk_bytes_read_total'', 4096),
        Some (''node_nfsd_disk_bytes_written_total'', 8192),
        Some (''node_nfsd_server_threads'', 16),
        Some (''node_nfsd_read_ahead_cache_size_blocks'', 64),
        Some (''node_nfsd_read_ahead_cache_not_found_total'', 11),
        Some (''node_nfsd_packets_total'', 120),
        Some (''node_nfsd_packets_total'', 180),
        Some (''node_nfsd_connections_total'', 13)]
   \<and> unat (42 :: uint64) < 2 ^ 53 \<and> float64 42 = 42"
  using sample_values_are_converted_fields
          [of acq_42 example_collector stats_42 "''node''" empty_state 42]
  by (simp add: acq_42_def stats_42_def BuildFQName_def nfsdSubsystem_def float64_def
      round_to_float64_def)

text \<open>
  C3: for every acquired snapshot, the samples named \<^verbatim>\<open>packets_total\<close> are exactly two:
  first the one with label \<^verbatim>\<open>proto="udp"\<close> and the value of \<^verbatim>\<open>Network.UDPCount\<close>, then
  the one with label \<^verbatim>\<open>proto="tcp"\<close> and the value of \<^verbatim>\<open>Network.TCPCount\<close>, not
  swapped. They are the only samples of the cycle that carry a label.
\<close>

theorem packets_total_udp_then_tcp:
  assumes "acq (fs c) = Inr st"
  shows "filter (has_name (BuildFQName ns nfsdSubsystem ''packets_total''))
           (emitted_samples ns acq c s) =
       [Some \<lparr>sample_name = BuildFQName ns nfsdSubsystem ''packets_total'',
               sample_kind = CounterValue,
               sample_help = ''NFSd how many network packets have been sent/recieved'',
               sample_labels = [(''proto'', ''udp'')],
               sample_value = float64 (UDPCount (Network st))\<rparr>,
        Some \<lparr>sample_name = BuildFQName ns nfsdSubsystem ''packets_total'',
               sample_kind = CounterValue,
               sample_help = ''NFSd how many network packets have been sent/recieved'',
               sample_labels = [(''proto'', ''tcp'')],
               sample_value = float64 (TCPCount (Network st))\<rparr>]
    \<and> filter has_labels (emitted_samples ns acq c s) =
       filter (has_name (BuildFQName ns nfsdSubsystem ''packets_total''))
         (emitted_samples ns acq c s)"
proof -
  have "emitted_samples ns acq c s = map Some (nfsd_samples ns st)"
    using assms by (rule emitted_samples_ok)
  then show ?thesis
    by (simp add: nfsd_samples_def has_name_def has_labels_def BuildFQName_inject)
qed

theorem packets_total_udp_then_tcp_witness:
  "example_acq (fs example_collector) = Inr example_stats
   \<and> filter has_labels (emitted_samples ''node'' example_acq example_collector busy_state) =
       [Some \<lparr>sample_name = ''node_nfsd_packets_total'',
               sample_kind = CounterValue,
               sample_help = ''NFSd how many network packets have been sent/recieved'',
               sample_labels = [(''proto'', ''udp'')],
               sample_value = 100\<rparr>,
        Some \<lparr>sample_name = ''node_nfsd_packets_total'',
               sample_kind = CounterValue,
               sample_help = ''NFSd how many network packets have been sent/recieved'',
               sample_labels = [(''proto'', ''tcp'')],
               sample_value = 50\<rparr>]"
  using packets_total_udp_then_tcp
          [of example_acq example_collector example_stats "''node''" busy_state]
  by (simp add: example_acq_def example_stats_def BuildFQName_def nfsdSubsystem_def float64_def
      round_to_float64_def)

text \<open>
  C4: when the acquisition of the snapshot fails, \<^verbatim>\<open>Update\<close> sends nothing (the state,
  channel included, is the one it started from), does not panic, and returns the error
  whose text is \<^verbatim>\<open>failed to retrieve nfsd stats: \<close> followed by the text of the
  acquisition error: the one error of the collector, which the spec calls
  StatsUnavailable. When the acquisition succeeds, \<^verbatim>\<open>Update\<close> returns \<^verbatim>\<open>nil\<close>.
\<close>

theorem Update_failure_emits_nothing:
  "(acq (fs c) = Inl err \<longrightarrow>
      Update ns acq c s =
        (Inr (Some (Error (''failed to retrieve nfsd stats: '' @ message err))), s)
      \<and> emitted ns acq c s = [] \<and> emitted_samples ns acq c s = [])
   \<and> (acq (fs c) = Inr st \<longrightarrow> fst (Update ns acq c s) = Inr None)"
  by (simp add: Update_fail Update_ok emitted_fail emitted_samples_fail Errorf_v_def)

theorem Update_failure_emits_nothing_witness:
  "failing_acq (fs example_collector) =
     Inl (Error ''open /proc/net/rpc/nfsd: no such file or directory'')
   \<and> Update ''node'' failing_acq example_collector busy_state =
       (Inr (Some (Error
          ''failed to retrieve nfsd stats: open /proc/net/rpc/nfsd: no such file or directory'')),
        busy_state)
   \<and> emitted ''node'' failing_acq example_collector busy_state = []
   \<and> example_acq (fs example_collector) = Inr example_stats
   \<and> fst (Update ''node'' example_acq example_collector busy_state) = Inr None"
  using Update_failure_emits_nothing
          [of failing_acq example_collector
              "Error ''open /proc/net/rpc/nfsd: no such file or directory''"
              "''node''" busy_state example_stats]
        Update_failure_emits_nothing
          [of example_acq example_collector
              "Error ''open /proc/net/rpc/nfsd: no such file or directory''"
              "''node''" busy_state example_stats]
  by (simp add: failing_acq_def example_acq_def example_collector_def)

text \<open>
  C5, as stated, speaks of the 11 samples that are delivered to the sink. Starting from
  an empty channel, a cycle on a snapshot with 42 reply cache hits leaves 12 metrics on
  the channel, not 11.
\<close>

theorem Update_delivery_counterexample:
  "length (chan (snd (Update ''node'' acq_42 example_collector empty_state))) = 12
   \<and> length (chan (snd (Update ''node'' acq_42 example_collector empty_state))) \<noteq> 11"
  by (simp add: Update_ok [of acq_42 example_collector stats_42] acq_42_def empty_state_def
      nfsd_metrics_def)

text \<open>
  C5, amended: for every acquired snapshot the 12 samples are appended to the channel in
  the fixed group order of section 4.2 of the spec: reply cache (hits, misses, nocache),
  file handles (stale), input/output (read, written), threads, read-ahead cache (size,
  not found), network (packets udp, packets tcp, connections).
\<close>

theorem samples_delivered_in_group_order:
  assumes "acq (fs c) = Inr st"
  shows "chan (snd (Update ns acq c s)) = chan s @ emitted ns acq c s
    \<and> map (map_option sample_name_labels) (emitted_samples ns acq c s) =
       [Some (BuildFQName ns nfsdSubsystem ''reply_cache_hits_total'', []),
        Some (BuildFQName ns nfsdSubsystem ''reply_cache_misses_total'', []),
        Some (BuildFQName ns nfsdSubsystem ''reply_cache_nocache_total'', []),
        Some (BuildFQName ns nfsdSubsystem ''file_handles_stale_total'', []),
        Some (BuildFQName ns nfsdSubsystem ''disk_bytes_read_total'', []),
        Some (BuildFQName ns nfsdSubsystem ''disk_bytes_written_total'', []),
        Some (BuildFQName ns nfsdSubsystem ''server_threads'', []),
        Some (BuildFQName ns nfsdSubsystem ''read_ahead_cache_size_blocks'', []),
        Some (BuildFQName ns nfsdSubsystem ''read_ahead_cache_not_found_total'', []),
        Some (BuildFQName ns nfsdSubsystem ''packets_total'', [(''proto'', ''udp'')]),
        Some (BuildFQName ns nfsdSubsystem ''packets_total'', [(''proto'', ''tcp'')]),
        Some (BuildFQName ns nfsdSubsystem ''connections_total'', [])]"
proof -
  have "emitted_samples ns acq c s = map Some (nfsd_samples ns st)"
    using assms by (rule emitted_samples_ok)
  then show ?thesis
    by (simp add: nfsd_samples_def sample_name_labels_def Update_chan)
qed

theorem samples_delivered_in_group_order_witness:
  "acq_42 (fs example_collector) = Inr stats_42
   \<and> map (map_option sample_name_labels)
        (emitted_samples ''node'' acq_42 example_collector busy_state) =
       [Some (''node_nfsd_reply_cache_hits_total'', []),
        Some (''node_nfsd_reply_cache_misses_total'', []),
        Some (''node_nfsd_reply_cache_nocache_total'', []),
        Some (''node_nfsd_file_handles_stale_total'', []),
        Some (''node_nfsd_disk_bytes_read_total'', []),
        Some (''node_nfsd_disk_bytes_written_total'', []),
        Some (''node_nfsd_server_threads'', []),
        Some (''node_nfsd_read_ahead_cache_size_blocks'', []),
        Some (''node_nfsd_read_ahead_cache_not_found_total'', []),
        Some (''node_nfsd_packets_total'', [(''proto'', ''udp'')]),
        Some (''node_nfsd_packets_total'', [(''proto'', ''tcp'')]),
        Some (''node_nfsd_connections_total'', [])]"
  using samples_delivered_in_group_order
          [of acq_42 example_collector stats_42 "''node''" busy_state]
  by (simp add: acq_42_def BuildFQName_def nfsdSubsystem_def)

text \<open>
  C6: each emitted sample depends on its own snapshot field only. The values of the
  samples are the conversions of the bound fields, in order; when two snapshots agree on
  the field bound to a position, the two cycles give the same sample at that position,
  whatever the other fields are; so two snapshots that differ in one bound field give
  cycles that differ at most in the sample bound to it, and snapshots that agree on all
  bound fields give the same samples. In particular the fields of \<^verbatim>\<open>FileHandles\<close> other
  than \<^verbatim>\<open>Stale\<close> influence no sample.
\<close>

theorem sample_depends_on_its_field_only:
  assumes "acq1 (fs c1) = Inr st1" and "acq2 (fs c2) = Inr st2"
  shows "map (map_option sample_value) (emitted_samples ns acq1 c1 s1) =
           map (\<lambda>x. Some (float64 x)) (bound_fields st1)
    \<and> (\<forall>i < length (bound_fields st1).
          bound_fields st1 ! i = bound_fields st2 ! i \<longrightarrow>
          emitted_samples ns acq1 c1 s1 ! i = emitted_samples ns acq2 c2 s2 ! i)
    \<and> (bound_fields st1 = bound_fields st2 \<longrightarrow>
          emitted_samples ns acq1 c1 s1 = emitted_samples ns acq2 c2 s2)
    \<and> (Stale fh = Stale (FileHandles st1) \<and> st2 = st1\<lparr>FileHandles := fh\<rparr> \<longrightarrow>
          emitted_samples ns acq1 c1 s1 = emitted_samples ns acq2 c2 s2)"
proof -
  have one: "emitted_samples ns acq1 c1 s1 = map Some (nfsd_samples ns st1)"
    using assms(1) by (rule emitted_samples_ok)
  have two: "emitted_samples ns acq2 c2 s2 = map Some (nfsd_samples ns st2)"
    using assms(2) by (rule emitted_samples_ok)
  have vals: "map (map_option sample_value) (emitted_samples ns acq1 c1 s1) =
           map (\<lambda>x. Some (float64 x)) (bound_fields st1)"
    by (simp add: one nfsd_samples_def bound_fields_def)
  have each: "\<forall>i < length (bound_fields st1).
          bound_fields st1 ! i = bound_fields st2 ! i \<longrightarrow>
          emitted_samples ns acq1 c1 s1 ! i = emitted_samples ns acq2 c2 s2 ! i"
    by (simp add: one two nfsd_samples_def bound_fields_def All_less_Suc)
  have all: "bound_fields st1 = bound_fields st2 \<longrightarrow>
          emitted_samples ns acq1 c1 s1 = emitted_samples ns acq2 c2 s2"
    by (simp add: one two nfsd_samples_def bound_fields_def)
  have fh: "Stale fh = Stale (FileHandles st1) \<and> st2 = st1\<lparr>FileHandles := fh\<rparr> \<longrightarrow>
          emitted_samples ns acq1 c1 s1 = emitted_samples ns acq2 c2 s2"
    by (simp add: one two nfsd_samples_def)
  from vals each all fh show ?thesis
    by blast
qed

theorem sample_depends_on_its_field_only_witness:
  "acq_threads_4 (fs example_collector) = Inr stats_threads_4
   \<and> acq_threads_6 (fs example_collector) = Inr stats_threads_6
   \<and> bound_fields stats_threads_4 = [10, 2, 1, 0, 1000, 500, 4, 32, 3, 100, 50, 7]
   \<and> bound_fields stats_threads_6 = [10, 2, 1, 0, 1000, 500, 6, 32, 3, 100, 50, 7]
   \<and> map (map_option sample_value)
        (emitted_samples ''node'' acq_threads_4 example_collector empty_state) =
       [Some 10, Some 2, Some 1, Some 0, Some 1000, Some 500, Some 4, Some 32, Some 3,
        Some 100, Some 50, Some 7]
   \<and> take 6 (emitted_samples ''node'' acq_threads_4 example_collector empty_state) =
       take 6 (emitted_samples ''node'' acq_threads_6 example_collector
                 (snd (Update ''node'' acq_threads_4 example_collector empty_state)))
   \<and> drop 7 (emitted_samples ''node'' acq_threads_4 example_collector empty_state) =
       drop 7 (emitted_samples ''node'' acq_threads_6 example_collector
                 (snd (Update ''node'' acq_threads_4 example_collector empty_state)))
   \<and> map_option sample_value
        (emitted_samples ''node'' acq_threads_4 example_collector empty_state ! 6) = Some 4
   \<and> map_option sample_value
        (emitted_samples ''node'' acq_threads_6 example_collector
           (snd (Update ''node'' acq_threads_4 example_collector empty_state)) ! 6) = Some 6
   \<and> acq_other_file_handles (fs example_collector) = Inr stats_other_file_handles
   \<and> stats_other_file_handles =
       example_stats\<lparr>FileHandles :=
         \<lparr>Stale = 0, TotalLookups = 99, AnonLookups = 98, DirNoCache = 97, NoDirNoCache = 96\<rparr>\<rparr>
   \<and> bound_fields example_stats = bound_fields stats_other_file_handles
   \<and> emitted_samples ''node'' example_acq example_collector empty_state =
       emitted_samples ''node'' acq_other_file_handles example_collector empty_state"
  using sample_depends_on_its_field_only
          [of acq_threads_4 example_collector stats_threads_4
              acq_threads_6 example_collector stats_threads_6 "''node''" empty_state
              "snd (Update ''node'' acq_threads_4 example_collector empty_state)"
              "FileHandles stats_threads_4"]
        sample_depends_on_its_field_only
          [of example_acq example_collector example_stats
              acq_other_file_handles example_collector stats_other_file_handles "''node''"
              empty_state empty_state
              "\<lparr>Stale = 0, TotalLookups = 99, AnonLookups = 98, DirNoCache = 97,
                NoDirNoCache = 96\<rparr>"]
  by (simp add: acq_threads_4_def acq_threads_6_def acq_other_file_handles_def example_acq_def
      stats_threads_4_def stats_threads_6_def stats_other_file_handles_def example_stats_def
      bound_fields_def float64_def round_to_float64_def
      emitted_samples_ok [of acq_threads_4 example_collector stats_threads_4]
      emitted_samples_ok [of acq_threads_6 example_collector stats_threads_6]
      nfsd_samples_def)

text \<open>
  C7: two calls of \<^verbatim>\<open>Update\<close> that acquire the same snapshot emit the same sequence of
  samples (names, kinds, help texts, labels and values) and return the same result,
  whatever was allocated or sent before each call.
\<close>

theorem Update_is_deterministic:
  assumes "acq1 (fs c1) = Inr st" and "acq2 (fs c2) = Inr st"
  shows "emitted_samples ns acq1 c1 s1 = emitted_samples ns acq2 c2 s2
    \<and> fst (Update ns acq1 c1 s1) = fst (Update ns acq2 c2 s2)"
  using assms by (simp add: emitted_samples_ok Update_ok)

theorem Update_is_deterministic_witness:
  "example_acq (fs example_collector) = Inr example_stats
   \<and> emitted_samples ''node'' example_acq example_collector
        (snd (Update ''node'' example_acq example_collector empty_state)) =
       emitted_samples ''node'' example_acq example_collector empty_state
   \<and> length (emitted_samples ''node'' example_acq example_collector empty_state) = 12"
  using Update_is_deterministic
          [of example_acq example_collector example_stats example_acq example_collector
              "''node''" "snd (Update ''node'' example_acq example_collector empty_state)"
              empty_state]
  by (simp add: example_acq_def emitted_samples_ok [of example_acq example_collector example_stats]
      nfsd_samples_def)

text \<open>
  C8: the two \<^verbatim>\<open>packets_total\<close> metrics of a cycle, the tenth and the eleventh sent,
  hold the same pointer: the one descriptor that the cycle allocates with the name
  \<^verbatim>\<open>packets_total\<close>, its help text and the label schema \<^verbatim>\<open>proto\<close>. No other metric of
  the cycle holds that pointer. Their values are taken from \<^verbatim>\<open>Network.UDPCount\<close> and
  \<^verbatim>\<open>Network.TCPCount\<close> respectively.
\<close>

theorem packets_total_samples_share_descriptor:
  assumes "acq (fs c) = Inr st"
  shows "emitted ns acq c s ! 9 =
           \<lparr>desc = length (descs s) + 9, valType = CounterValue,
             val = float64 (UDPCount (Network st)), labelValues = [''udp'']\<rparr>
    \<and> emitted ns acq c s ! 10 =
           \<lparr>desc = length (descs s) + 9, valType = CounterValue,
             val = float64 (TCPCount (Network st)), labelValues = [''tcp'']\<rparr>
    \<and> desc (emitted ns acq c s ! 9) = desc (emitted ns acq c s ! 10)
    \<and> deref (snd (Update ns acq c s)) (desc (emitted ns acq c s ! 9)) =
           Some \<lparr>fqName = BuildFQName ns nfsdSubsystem ''packets_total'',
                  help' = ''NFSd how many network packets have been sent/recieved'',
                  variableLabels = [''proto''], constLabels = []\<rparr>
    \<and> deref s (desc (emitted ns acq c s ! 9)) = None
    \<and> filter (\<lambda>m. desc m = desc (emitted ns acq c s ! 9)) (emitted ns acq c s) =
           [emitted ns acq c s ! 9, emitted ns acq c s ! 10]
    \<and> filter (has_name (BuildFQName ns nfsdSubsystem ''packets_total''))
           (emitted_samples ns acq c s) =
           [emitted_samples ns acq c s ! 9, emitted_samples ns acq c s ! 10]"
proof -
  have metrics: "emitted ns acq c s = nfsd_metrics (length (descs s)) st"
    using assms by (rule emitted_ok)
  have samples: "emitted_samples ns acq c s = map Some (nfsd_samples ns st)"
    using assms by (rule emitted_samples_ok)
  have run: "snd (Update ns acq c s) =
      s\<lparr>descs := descs s @ nfsd_descs ns,
         chan := chan s @ nfsd_metrics (length (descs s)) st\<rparr>"
    using assms by (simp add: Update_ok)
  have udp: "emitted ns acq c s ! 9 =
           \<lparr>desc = length (descs s) + 9, valType = CounterValue,
             val = float64 (UDPCount (Network st)), labelValues = [''udp'']\<rparr>"
    by (simp add: metrics nfsd_metrics_def)
  have tcp: "emitted ns acq c s ! 10 =
           \<lparr>desc = length (descs s) + 9, valType = CounterValue,
             val = float64 (TCPCount (Network st)), labelValues = [''tcp'']\<rparr>"
    by (simp add: metrics nfsd_metrics_def)
  have same: "desc (emitted ns acq c s ! 9) = desc (emitted ns acq c s ! 10)"
    by (simp add: udp tcp)
  have target: "deref (snd (Update ns acq c s)) (desc (emitted ns acq c s ! 9)) =
           Some \<lparr>fqName = BuildFQName ns nfsdSubsystem ''packets_total'',
                  help' = ''NFSd how many network packets have been sent/recieved'',
                  variableLabels = [''proto''], constLabels = []\<rparr>"
    by (simp add: udp run deref_def nfsd_descs_def nth_append)
  have fresh: "deref s (desc (emitted ns acq c s ! 9)) = None"
    by (simp add: udp deref_def)
  have only: "filter (\<lambda>m. desc m = desc (emitted ns acq c s ! 9)) (emitted ns acq c s) =
           [emitted ns acq c s ! 9, emitted ns acq c s ! 10]"
    by (simp add: udp tcp) (simp add: metrics nfsd_metrics_def)
  have named: "filter (has_name (BuildFQName ns nfsdSubsystem ''packets_total''))
           (emitted_samples ns acq c s) =
           [emitted_samples ns acq c s ! 9, emitted_samples ns acq c s ! 10]"
    by (simp add: samples nfsd_samples_def has_name_def BuildFQName_inject)
  from udp tcp same target fresh only named show ?thesis
    by blast
qed

theorem packets_total_samples_share_descriptor_witness:
  "example_acq (fs example_collector) = Inr example_stats
   \<and> emitted ''node'' example_acq example_collector busy_state ! 9 =
       \<lparr>desc = 10, valType = CounterValue, val = 100, labelValues = [''udp'']\<rparr>
   \<and> emitted ''node'' example_acq example_collector busy_state ! 10 =
       \<lparr>desc = 10, valType = CounterValue, val = 50, labelValues = [''tcp'']\<rparr>
   \<and> deref (snd (Update ''node'' example_acq example_collector busy_state)) 10 =
       Some \<lparr>fqName = ''node_nfsd_packets_total'',
              help' = ''NFSd how many network packets have been sent/recieved'',
              variableLabels = [''proto''], constLabels = []\<rparr>"
proof -
  have ok: "example_acq (fs example_collector) = Inr example_stats"
    by (simp add: example_acq_def)
  have len: "length (descs busy_state) = 1"
    by (simp add: busy_state_def)
  have udp: "float64 (UDPCount (Network example_stats)) = 100"
    by (simp add: example_stats_def float64_def round_to_float64_def)
  have tcp: "float64 (TCPCount (Network example_stats)) = 50"
    by (simp add: example_stats_def float64_def round_to_float64_def)
  from packets_total_samples_share_descriptor
         [of example_acq example_collector example_stats "''node''" busy_state]
  show ?thesis
    by (clarsimp simp add: ok len udp tcp BuildFQName_def nfsdSubsystem_def)
qed

text \<open>
  C9: \<^verbatim>\<open>Update\<close> never panics. Every metric it sends was built with as many label
  values as its descriptor declares variable labels: one value for the two metrics on
  the \<^verbatim>\<open>packets_total\<close> descriptor, which declares \<^verbatim>\<open>proto\<close>, and none for every other
  metric, whose descriptor declares no variable label.
\<close>

theorem Update_never_panics:
  "(\<exists>r. fst (Update ns acq c s) = Inr r)
   \<and> list_all (label_count_matches (snd (Update ns acq c s))) (emitted ns acq c s)
   \<and> (acq (fs c) = Inr st \<longrightarrow>
        map (\<lambda>m. (map_option variableLabels (deref (snd (Update ns acq c s)) (desc m)),
                   labelValues m))
          (emitted ns acq c s) =
        [(Some [], []), (Some [], []), (Some [], []), (Some [], []), (Some [], []),
         (Some [], []), (Some [], []), (Some [], []), (Some [], []),
         (Some [''proto''], [''udp'']), (Some [''proto''], [''tcp'']), (Some [], [])])"
proof (cases "acq (fs c)")
  case (Inl err)
  then show ?thesis
    by (simp add: Update_fail emitted_fail)
next
  case (Inr st')
  then show ?thesis
    by (simp add: Update_ok emitted_ok nfsd_metrics_def nfsd_descs_def label_count_matches_def
        deref_def nth_append)
qed

theorem Update_never_panics_witness:
  "fst (Update ''node'' example_acq example_collector busy_state) = Inr None
   \<and> fst (Update ''node'' failing_acq example_collector busy_state) =
       Inr (Some (Error
         ''failed to retrieve nfsd stats: open /proc/net/rpc/nfsd: no such file or directory''))
   \<and> example_acq (fs example_collector) = Inr example_stats
   \<and> map labelValues (emitted ''node'' example_acq example_collector busy_state) =
       [[], [], [], [], [], [], [], [], [], [''udp''], [''tcp''], []]
   \<and> list_all (label_count_matches (snd (Update ''node'' example_acq example_collector busy_state)))
        (emitted ''node'' example_acq example_collector busy_state)"
proof -
  have ok: "example_acq (fs example_collector) = Inr example_stats"
    by (simp add: example_acq_def)
  have bad: "failing_acq (fs example_collector) =
      Inl (Error ''open /proc/net/rpc/nfsd: no such file or directory'')"
    by (simp add: failing_acq_def example_collector_def)
  from Update_never_panics [of "''node''" example_acq example_collector busy_state example_stats]
       Update_never_panics [of "''node''" failing_acq example_collector busy_state example_stats]
  show ?thesis
    by (simp add: ok bad nfsd_metrics_def Errorf_v_def
        Update_ok [of example_acq example_collector example_stats]
        Update_fail [of failing_acq example_collector
                        "Error ''open /proc/net/rpc/nfsd: no such file or directory''"]
        emitted_ok [of example_acq example_collector example_stats])
qed

text \<open>
  C10: for every acquired snapshot, the help text of the one sample named
  \<^verbatim>\<open>read_ahead_cache_not_found_total\<close> is \<^verbatim>\<open>NFSd how large the read ahead cache in blocks\<close>,
  the same string as the help text of \<^verbatim>\<open>read_ahead_cache_size_blocks\<close>.
\<close>

theorem read_ahead_not_found_help_is_the_size_help:
  assumes "acq (fs c) = Inr st"
  shows "map (map_option sample_name_help)
           (filter (has_name (BuildFQName ns nfsdSubsystem ''read_ahead_cache_not_found_total''))
              (emitted_samples ns acq c s)) =
         [Some (BuildFQName ns nfsdSubsystem ''read_ahead_cache_not_found_total'',
                ''NFSd how large the read ahead cache in blocks'')]
    \<and> map (map_option sample_name_help)
           (filter (has_name (BuildFQName ns nfsdSubsystem ''read_ahead_cache_size_blocks''))
              (emitted_samples ns acq c s)) =
         [Some (BuildFQName ns nfsdSubsystem ''read_ahead_cache_size_blocks'',
                ''NFSd how large the read ahead cache in blocks'')]"
proof -
  have "emitted_samples ns acq c s = map Some (nfsd_samples ns st)"
    using assms by (rule emitted_samples_ok)
  then show ?thesis
    by (simp add: nfsd_samples_def has_name_def sample_name_help_def BuildFQName_inject)
qed

theorem read_ahead_not_found_help_is_the_size_help_witness:
  "acq_42 (fs example_collector) = Inr stats_42
   \<and> map (map_option sample_name_help)
        (filter (has_name ''node_nfsd_read_ahead_cache_not_found_total'')
           (emitted_samples ''node'' acq_42 example_collector empty_state)) =
       [Some (''node_nfsd_read_ahead_cache_not_found_total'',
              ''NFSd how large the read ahead cache in blocks'')]
   \<and> map (map_option sample_name_help)
        (filter (has_name ''node_nfsd_read_ahead_cache_size_blocks'')
           (emitted_samples ''node'' acq_42 example_collector empty_state)) =
       [Some (''node_nfsd_read_ahead_cache_size_blocks'',
              ''NFSd how large the read ahead cache in blocks'')]"
  using read_ahead_not_found_help_is_the_size_help
          [of acq_42 example_collector stats_42 "''node''" empty_state]
  by (simp add: acq_42_def BuildFQName_def nfsdSubsystem_def)

end
